theory Spec2Isabelle
  imports Complex_Main
begin

section \<open>Python values\<close>

text \<open>
  \<open>create_invoice_pdf\<close> takes a \<open>Dict[str, Any]\<close>: the values under its keys are
  arbitrary Python objects. The embedding covers \<open>None\<close>, booleans, integers, floats,
  strings, lists and dictionaries. A dictionary is an association list; the first
  binding of a key is the dictionary's entry for it.

  Numbers are exact rationals. Every finite double is a rational, so every float the
  program can hold has its value here, but the arithmetic is the exact one: the
  rounding of binary floating point, its range (\<open>inf\<close>, \<open>nan\<close>, the
  \<open>OverflowError\<close> of \<open>float\<close> on an integer beyond the range of a double) are
  outside the model.

  A character is a code point below 256 (\<open>char\<close> has eight bits).
\<close>

datatype pyval =
    PNone
  | PBool bool
  | PInt int
  | PFloat rat
  | PStr string
  | PList "pyval list"
  | PDict "(string \<times> pyval) list"

type_synonym pydict = "(string \<times> pyval) list"

datatype error = TypeError | ValueError | AttributeError

text \<open>\<open>d.get(k, dflt)\<close>: the default is used only when the key is absent.\<close>

definition dict_get :: "pydict \<Rightarrow> string \<Rightarrow> pyval \<Rightarrow> pyval" where
  "dict_get d k dflt = (case map_of d k of None \<Rightarrow> dflt | Some v \<Rightarrow> v)"

text \<open>Truth value testing (\<open>if v:\<close>).\<close>

fun truthy :: "pyval \<Rightarrow> bool" where
  "truthy PNone = False"
| "truthy (PBool b) = b"
| "truthy (PInt n) = (n \<noteq> 0)"
| "truthy (PFloat x) = (x \<noteq> 0)"
| "truthy (PStr s) = (s \<noteq> [])"
| "truthy (PList xs) = (xs \<noteq> [])"
| "truthy (PDict d) = (d \<noteq> [])"

section \<open>Strings\<close>

text \<open>\<open>str.isalnum\<close> and \<open>str.isspace\<close> on the code points below 256.\<close>

definition isalnum :: "char \<Rightarrow> bool" where
  "isalnum c = (let n = (of_char c :: nat) in
     (48 \<le> n \<and> n \<le> 57) \<or> (65 \<le> n \<and> n \<le> 90) \<or> (97 \<le> n \<and> n \<le> 122) \<or>
     n = 170 \<or> n = 178 \<or> n = 179 \<or> n = 181 \<or> n = 185 \<or> n = 186 \<or>
     (188 \<le> n \<and> n \<le> 190) \<or> (192 \<le> n \<and> n \<le> 214) \<or>
     (216 \<le> n \<and> n \<le> 246) \<or> (248 \<le> n \<and> n \<le> 255))"

definition isspace :: "char \<Rightarrow> bool" where
  "isspace c = (let n = (of_char c :: nat) in
     (9 \<le> n \<and> n \<le> 13) \<or> (28 \<le> n \<and> n \<le> 32) \<or> n = 133 \<or> n = 160)"

text \<open>\<open>s.rstrip()\<close>: trailing whitespace removed.\<close>

definition rstrip :: "string \<Rightarrow> string" where
  "rstrip s = rev (dropWhile isspace (rev s))"

text \<open>\<open>s.split(sep)\<close> for a one-character separator: every occurrence splits.\<close>

fun split_on :: "char \<Rightarrow> string \<Rightarrow> string list" where
  "split_on sep [] = [[]]"
| "split_on sep (c # cs) =
     (if c = sep then [] # split_on sep cs
      else (case split_on sep cs of
              [] \<Rightarrow> [[c]]
            | w # ws \<Rightarrow> (c # w) # ws))"

text \<open>\<open>a in b\<close> for strings: \<open>a\<close> occurs in \<open>b\<close> as a contiguous run.\<close>

fun starts_with :: "string \<Rightarrow> string \<Rightarrow> bool" where
  "starts_with [] ys = True"
| "starts_with (x # xs) [] = False"
| "starts_with (x # xs) (y # ys) = (x = y \<and> starts_with xs ys)"

fun str_contains :: "string \<Rightarrow> string \<Rightarrow> bool" where
  "str_contains a [] = (a = [])"
| "str_contains a (y # ys) = (starts_with a (y # ys) \<or> str_contains a ys)"

text \<open>Decimal digits of a natural number.\<close>

definition digit_char :: "nat \<Rightarrow> char" where
  "digit_char n = ''0123456789'' ! (n mod 10)"

fun digits :: "nat \<Rightarrow> string" where
  "digits n = (if n < 10 then [digit_char n] else digits (n div 10) @ [digit_char n])"

section \<open>Number formatting\<close>

text \<open>
  The format specification \<open>,.2f\<close>: the value rounded to two decimals (a tie goes to the
  even neighbour), a comma between groups of three integer digits, a minus sign for a
  negative value (also when it rounds to zero).
\<close>

definition round_half_even :: "rat \<Rightarrow> int" where
  "round_half_even x =
     (let f = \<lfloor>x\<rfloor>; r = x - of_int f
      in if r < 1 / 2 then f else if 1 / 2 < r then f + 1 else if even f then f else f + 1)"

fun commas_rev :: "string \<Rightarrow> string" where
  "commas_rev (a # b # c # d # rest) = a # b # c # CHR '','' # commas_rev (d # rest)"
| "commas_rev ds = ds"

definition group3 :: "string \<Rightarrow> string" where
  "group3 ds = rev (commas_rev (rev ds))"

definition fmt2 :: "rat \<Rightarrow> string" where
  "fmt2 x =
     (let n = nat (round_half_even (\<bar>x\<bar> * 100))
      in (if x < 0 then ''-'' else '''') @ group3 (digits (n div 100)) @ ''.'' @
         [digit_char (n div 10), digit_char n])"

section \<open>The download filename\<close>

text \<open>
  Both endpoints compute
  \<open>"".join(c for c in data.invoice_no if c.isalnum() or c in ('-', '_')).rstrip()\<close>
  and then \<open>f"invoice_{inv_no_filename or 'generated'}.pdf"\<close>.
\<close>

definition inv_no_filename :: "string \<Rightarrow> string" where
  "inv_no_filename invoice_no =
     rstrip (filter (\<lambda>c. isalnum c \<or> c \<in> {CHR ''-'', CHR ''_''}) invoice_no)"

definition filename :: "string \<Rightarrow> string" where
  "filename invoice_no =
     ''invoice_'' @
     (if inv_no_filename invoice_no \<noteq> [] then inv_no_filename invoice_no else ''generated'') @
     ''.pdf''"

section \<open>The canvas\<close>

text \<open>
  ReportLab is not part of the repository. Its canvas is the list of the calls the
  program makes on it, in order; what a call puts into the PDF file is ReportLab's.
  A paragraph or table style is a name for the object the source builds (lines 69-84);
  \<open>ParagraphStyle name parent leftIndent textColor\<close> is a style built during layout.
\<close>

datatype color =
    black | white | red | darkgrey | lightgrey
  | HEADER_RED | TABLE_HEADER_RED | DARK_RED | GREY_TEXT

datatype pstyle =
    style_normal | style_bold | style_h1 | style_h2 | style_right | style_right_bold
  | style_center | style_footer | style_grey | style_table_header | style_table_cell
  | style_table_cell_center | style_table_cell_right | style_upi
  | style_bank_label | style_bank_value
  | ParagraphStyle string pstyle "rat option" "color option"

text \<open>A table cell is a \<open>Paragraph(text, style)\<close> or a plain string.\<close>

datatype cell = Paragraph pyval pstyle | Str string

type_synonym row = "cell list"

text \<open>A \<open>TableStyle\<close> command: its name, the two corners of its cell range, its arguments.\<close>

datatype targ = AColor color | AStr string | ANum rat

type_synonym tcmd = "string \<times> (int \<times> int) \<times> (int \<times> int) \<times> targ list"

datatype canvas_op =
    SetFont string rat
  | SetFillColor color
  | DrawString rat rat string
  | DrawRightString rat rat pyval
  | DrawCentredString rat rat string
  | DrawImage string rat rat rat rat
  | DrawParagraph string pstyle rat rat rat
  | DrawTable "row list" "rat list" "tcmd list" rat rat
  | RoundRect rat rat rat rat rat bool bool
  | Line rat rat rat rat
  | SaveState
  | RestoreState
  | Translate rat rat
  | Rotate rat

text \<open>
  \<open>DrawString x y text\<close>, \<open>DrawRightString x y text\<close> and \<open>DrawCentredString x y text\<close> are
  the canvas methods of these names (the right-aligned one is also called with values
  read from the dictionary as they are, so its text is a Python value);
  \<open>DrawImage path x y width height\<close> is \<open>Image(path, width, height).drawOn(c, x, y)\<close>;
  \<open>DrawParagraph text style width x y\<close> is \<open>p.wrapOn(c, width, _)\<close> followed by
  \<open>p.drawOn(c, x, y)\<close>; \<open>DrawTable data colWidths style x y\<close> is \<open>table.drawOn(c, x, y)\<close>;
  \<open>RoundRect x y width height radius stroke fill\<close> and \<open>Line x1 y1 x2 y2\<close> are
  \<open>c.roundRect\<close> and \<open>c.line\<close>.
\<close>

section \<open>The environment of a render\<close>

text \<open>
  What a render reads that is neither its argument nor the repository's code: the
  built-ins \<open>float\<close> on a string (\<open>None\<close> where it raises \<open>ValueError\<close>) and \<open>str\<close> on
  a float, a list or a dictionary; the heights ReportLab measures for a wrapped
  paragraph (text, style, available width) and for a table; today's date as
  \<open>strftime('%d.%m.%y')\<close> prints it; the directory of \<open>main.py\<close>; and, for each image
  path, whether the file is missing, present but not drawable, or drawable.
\<close>

datatype asset_state = Missing | Unreadable | Loadable

record env =
  float_of_str :: "string \<Rightarrow> rat option"
  repr :: "pyval \<Rightarrow> string"
  para_height :: "string \<Rightarrow> pstyle \<Rightarrow> rat \<Rightarrow> rat"
  table_wrap_height :: "row list \<Rightarrow> rat list \<Rightarrow> tcmd list \<Rightarrow> rat"
  today :: string
  base_dir :: string
  asset :: "string \<Rightarrow> asset_state"

text \<open>\<open>str(v)\<close>, also what an f-string puts for \<open>{v}\<close>.\<close>

fun py_str :: "env \<Rightarrow> pyval \<Rightarrow> string" where
  "py_str env (PStr s) = s"
| "py_str env PNone = ''None''"
| "py_str env (PBool b) = (if b then ''True'' else ''False'')"
| "py_str env (PInt n) = (if n < 0 then ''-'' else '''') @ digits (nat \<bar>n\<bar>)"
| "py_str env (PFloat x) = repr env (PFloat x)"
| "py_str env (PList xs) = repr env (PList xs)"
| "py_str env (PDict d) = repr env (PDict d)"

text \<open>\<open>float(v)\<close>: \<open>TypeError\<close> for a value that is neither a number nor a string,
  \<open>ValueError\<close> for a string that is not a number.\<close>

fun py_float :: "env \<Rightarrow> pyval \<Rightarrow> error + rat" where
  "py_float env PNone = Inl TypeError"
| "py_float env (PBool b) = Inr (if b then 1 else 0)"
| "py_float env (PInt n) = Inr (of_int n)"
| "py_float env (PFloat x) = Inr x"
| "py_float env (PStr s) = (case float_of_str env s of None \<Rightarrow> Inl ValueError | Some x \<Rightarrow> Inr x)"
| "py_float env (PList xs) = Inl TypeError"
| "py_float env (PDict d) = Inl TypeError"

text \<open>The value of an operand of float arithmetic (\<open>x - v\<close>, \<open>v / 100.0\<close>) and of the
  format \<open>,.2f\<close>: a number, or \<open>TypeError\<close>.\<close>

fun py_num :: "pyval \<Rightarrow> error + rat" where
  "py_num (PBool b) = Inr (if b then 1 else 0)"
| "py_num (PInt n) = Inr (of_int n)"
| "py_num (PFloat x) = Inr x"
| "py_num PNone = Inl TypeError"
| "py_num (PStr s) = Inl TypeError"
| "py_num (PList xs) = Inl TypeError"
| "py_num (PDict d) = Inl TypeError"

section \<open>Constants (lines 26-39)\<close>

text \<open>ReportLab's \<open>inch\<close> is 72 points, \<open>cm = inch / 2.54\<close>, \<open>mm = cm * 0.1\<close>, and
  \<open>A4 = (210 * mm, 297 * mm)\<close>.\<close>

definition inch :: rat where
  "inch = 72"

definition PAGE_WIDTH :: rat where
  "PAGE_WIDTH = 210 * (inch / 2.54 * 0.1)"

definition PAGE_HEIGHT :: rat where
  "PAGE_HEIGHT = 297 * (inch / 2.54 * 0.1)"

definition LEFT_MARGIN :: rat where
  "LEFT_MARGIN = 0.75 * inch"

definition RIGHT_MARGIN :: rat where
  "RIGHT_MARGIN = 0.75 * inch"

definition TOP_MARGIN :: rat where
  "TOP_MARGIN = 0.5 * inch"

definition BOTTOM_MARGIN :: rat where
  "BOTTOM_MARGIN = 0.5 * inch"

definition CONTENT_WIDTH :: rat where
  "CONTENT_WIDTH = PAGE_WIDTH - LEFT_MARGIN - RIGHT_MARGIN"

text \<open>\<open>os.path.join(a, b)\<close> and \<open>os.path.basename(p)\<close> on POSIX paths.\<close>

definition path_join :: "string \<Rightarrow> string \<Rightarrow> string" where
  "path_join a b =
     (if starts_with ''/'' b then b
      else if a = [] \<or> last a = CHR ''/'' then a @ b
      else a @ ''/'' @ b)"

definition basename :: "string \<Rightarrow> string" where
  "basename p = rev (takeWhile (\<lambda>c. c \<noteq> CHR ''/'') (rev p))"

definition LOGO_PATH :: "env \<Rightarrow> string" where
  "LOGO_PATH env = path_join (base_dir env) ''logo.png''"

definition QRCODE_PATH :: "env \<Rightarrow> string" where
  "QRCODE_PATH env = path_join (base_dir env) ''qr-code.png''"

definition SIGNATURE_PATH :: "env \<Rightarrow> string" where
  "SIGNATURE_PATH env = path_join (base_dir env) ''signature.png''"

section \<open>\<open>draw_logo\<close> (lines 42-57)\<close>

text \<open>
  The image is drawn when the file exists and loads. When loading or drawing raises,
  the exception is caught and a red caption is drawn; when the file does not exist, a
  dark grey caption. The two \<open>print\<close> calls write to standard output, not to the canvas.
\<close>

definition draw_logo :: "env \<Rightarrow> string \<Rightarrow> rat \<Rightarrow> rat \<Rightarrow> rat \<Rightarrow> rat \<Rightarrow> canvas_op list" where
  "draw_logo env path x y width height =
     (case asset env path of
        Loadable \<Rightarrow> [DrawImage path x y width height]
      | Unreadable \<Rightarrow>
          [SetFont ''Helvetica'' 8, SetFillColor red,
           DrawCentredString (x + width / 2) (y + height / 2) (''Image Error: '' @ basename path),
           SetFillColor black]
      | Missing \<Rightarrow>
          [SetFont ''Helvetica'' 8, SetFillColor darkgrey,
           DrawCentredString (x + width / 2) (y + height / 2) (''['' @ basename path @ '' not found]''),
           SetFillColor black])"

section \<open>\<open>create_invoice_pdf\<close> (lines 60-190)\<close>

subsection \<open>The client's address (line 92)\<close>

text \<open>
  \<open>invoice_data.get('client_address', '').split('\n') if invoice_data.get('client_address') else []\<close>:
  a value that is true and not a string has no \<open>split\<close>.
\<close>

definition address_lines :: "pydict \<Rightarrow> error + string list" where
  "address_lines invoice_data =
     (if truthy (dict_get invoice_data ''client_address'' PNone)
      then (case dict_get invoice_data ''client_address'' (PStr '''') of
              PStr s \<Rightarrow> Inr (split_on (CHR 0x0A) s)
            | _ \<Rightarrow> Inl AttributeError)
      else Inr [])"

subsection \<open>Header: logo, title, invoice lines, QR code (lines 98-123)\<close>

text \<open>The result is the calls on the canvas and the two cursors \<open>y_pos_left\<close>, \<open>y_pos_right\<close>.\<close>

definition header_section ::
  "env \<Rightarrow> pyval \<Rightarrow> pyval \<Rightarrow> pyval \<Rightarrow> canvas_op list \<times> rat \<times> rat" where
  "header_section env inv_no inv_date_str due_date_str =
     (let y_pos = PAGE_HEIGHT - TOP_MARGIN;
          header_y_start = y_pos - 0.4 * inch;
          logo_size = 1.5 * inch;
          logo = draw_logo env (LOGO_PATH env) LEFT_MARGIN (header_y_start - logo_size)
                   logo_size logo_size;
          y_pos_left = header_y_start - logo_size - (0.1 * inch + 0.2 * inch);
          right_column_start_x = PAGE_WIDTH / 2 + 0.5 * inch;
          right_column_width = PAGE_WIDTH - RIGHT_MARGIN - right_column_start_x;
          top_line =
            [SetFont ''Helvetica'' 8, SetFillColor HEADER_RED,
             DrawRightString (right_column_start_x + right_column_width)
               (header_y_start + 0.1 * inch)
               (PStr (''INVOICE NO: '' @ py_str env inv_no @ '' | INVOICE DATE: '' @
                      py_str env inv_date_str)),
             SetFillColor black];
          y_pos_right = header_y_start;
          title =
            [DrawParagraph ''INVOICE'' style_h1 right_column_width right_column_start_x
               (y_pos_right - 0.4 * inch)];
          y_pos_right = y_pos_right -
            (0.4 * inch + para_height env ''INVOICE'' style_h1 right_column_width + 0.15 * inch);
          line_height_inv = 0.20 * inch;
          no_line =
            [SetFont ''Helvetica'' 9,
             DrawRightString (right_column_start_x + right_column_width) y_pos_right
               (PStr (''#'' @ py_str env inv_no)),
             DrawString right_column_start_x y_pos_right ''Invoice No:''];
          y_pos_right = y_pos_right - line_height_inv;
          due_line =
            [DrawRightString (right_column_start_x + right_column_width) y_pos_right due_date_str,
             DrawString right_column_start_x y_pos_right ''Due Date:''];
          y_pos_right = y_pos_right - line_height_inv;
          date_line =
            [DrawRightString (right_column_start_x + right_column_width) y_pos_right inv_date_str,
             DrawString right_column_start_x y_pos_right ''Invoice Date:''];
          y_pos_right = y_pos_right - (line_height_inv + 0.1 * inch);
          upi_text = ''UPI ID - TOURISM.NORTHSIKKIM@CNRB'';
          upi =
            [DrawParagraph upi_text style_upi right_column_width right_column_start_x y_pos_right];
          y_pos_right = y_pos_right -
            (para_height env upi_text style_upi right_column_width + 0.1 * inch);
          qr_size = 1.6 * inch;
          qr_x = right_column_start_x + (right_column_width - qr_size) / 2;
          qr_y = y_pos_right - qr_size;
          qr = draw_logo env (QRCODE_PATH env) qr_x qr_y qr_size qr_size;
          pay_here_x = qr_x - 0.2 * inch;
          pay_here =
            [SaveState, SetFont ''Helvetica-Bold'' 10, SetFillColor HEADER_RED,
             Translate pay_here_x (qr_y + qr_size / 2), Rotate 90,
             DrawCentredString 0 0 ''PAY HERE'', RestoreState];
          y_pos_right = y_pos_right - (qr_size + 0.2 * inch)
      in (logo @ top_line @ title @ no_line @ due_line @ date_line @ upi @ qr @ pay_here,
          y_pos_left, y_pos_right))"

subsection \<open>Company lines and the heading of the client block (lines 125-129)\<close>

definition company_section :: "env \<Rightarrow> rat \<Rightarrow> canvas_op list \<times> rat" where
  "company_section env y_pos_left0 =
     (let comp_x = LEFT_MARGIN;
          comp_width = 3 * inch;
          name_text = ''Yara Escape Tours & Trek'';
          name_par = [DrawParagraph name_text style_h2 comp_width comp_x y_pos_left0];
          y_pos_left = y_pos_left0 - (para_height env name_text style_h2 comp_width + 0.1 * inch);
          spec_text = ''Specialist in: Sikkim, Darjelling, Northeast'';
          spec_par = [DrawParagraph spec_text style_normal comp_width comp_x y_pos_left];
          y_pos_left = y_pos_left - (para_height env spec_text style_normal comp_width + 0.2 * inch);
          to_text = ''<u>INVOICE TO:</u>'';
          to_style = ParagraphStyle ''InvoiceTo'' style_bold None (Some HEADER_RED);
          to_par = [DrawParagraph to_text to_style comp_width comp_x y_pos_left];
          y_pos_left = y_pos_left - (para_height env to_text to_style comp_width + 0.1 * inch)
      in (name_par @ spec_par @ to_par, y_pos_left))"

subsection \<open>The client block (lines 130-137)\<close>

definition cust_info_dynamic ::
  "env \<Rightarrow> pyval \<Rightarrow> pyval \<Rightarrow> pyval \<Rightarrow> string list \<Rightarrow> (pyval \<times> pstyle) list" where
  "cust_info_dynamic env client_name client_phone client_email client_address_lines =
     [(client_name, style_bold),
      (PStr (if truthy client_phone then ''Phone: '' @ py_str env client_phone else ''''),
       style_normal),
      (PStr (if truthy client_email then ''Email: '' @ py_str env client_email else ''''),
       style_normal)] @
     (if client_address_lines \<noteq> []
      then (PStr ''Address:'', style_normal) #
           map (\<lambda>line. (PStr line, style_normal)) client_address_lines
      else [])"

text \<open>
  One pass of the loop. A text that is false is skipped. Only \<open>client_name\<close> can be
  another value than a string: a true one raises in \<open>line in text\<close> or in
  \<open>text[:10].replace\<close> (\<open>TypeError\<close> for a number, a boolean or, up to Python 3.11, a
  dictionary; \<open>AttributeError\<close> for a list).
\<close>

definition p_style :: "string list \<Rightarrow> string \<Rightarrow> pstyle \<Rightarrow> pstyle" where
  "p_style client_address_lines t style =
     (let is_address_line =
            (list_ex (\<lambda>line. line \<noteq> [] \<and> str_contains line t) client_address_lines \<and>
             \<not> str_contains ''Address:'' t)
      in ParagraphStyle
           (''AddrDyn_'' @ map (\<lambda>c. if c = CHR '' '' then CHR ''_'' else c) (take 10 t))
           style (Some (if is_address_line then 0.3 * inch else 0)) None)"

definition party_step ::
  "env \<Rightarrow> string list \<Rightarrow> pyval \<times> pstyle \<Rightarrow> canvas_op list \<times> rat \<Rightarrow>
   error + canvas_op list \<times> rat" where
  "party_step env client_address_lines entry st =
     (let (text, style) = entry; (ops, y_pos_left) = st;
          comp_x = LEFT_MARGIN; comp_width = 3 * inch
      in if truthy text
         then (case text of
                 PStr t \<Rightarrow>
                   Inr (ops @ [DrawParagraph t (p_style client_address_lines t style)
                                 (comp_width + 1 * inch) comp_x y_pos_left],
                        y_pos_left -
                        para_height env t (p_style client_address_lines t style)
                          (comp_width + 1 * inch))
               | PList xs \<Rightarrow> Inl AttributeError
               | _ \<Rightarrow> Inl TypeError)
         else Inr (ops, y_pos_left))"

fun party_loop ::
  "env \<Rightarrow> string list \<Rightarrow> (pyval \<times> pstyle) list \<Rightarrow> canvas_op list \<times> rat \<Rightarrow>
   error + canvas_op list \<times> rat" where
  "party_loop env client_address_lines [] st = Inr st"
| "party_loop env client_address_lines (entry # rest) st =
     (case party_step env client_address_lines entry st of
        Inl e \<Rightarrow> Inl e
      | Inr st' \<Rightarrow> party_loop env client_address_lines rest st')"

subsection \<open>The rows of the table (lines 140-147)\<close>

definition table_header_row :: row where
  "table_header_row =
     [Paragraph (PStr ''DESCRIPTION'') style_table_header,
      Paragraph (PStr ''PRICE'') style_table_header,
      Paragraph (PStr ''QTY'') style_table_header,
      Paragraph (PStr ''SUBTOTAL'') style_table_header]"

text \<open>
  \<open>for item in items\<close>: a list yields its elements, a string its characters, a
  dictionary its keys; \<open>None\<close> and numbers are not iterable.
\<close>

fun py_iter :: "pyval \<Rightarrow> error + pyval list" where
  "py_iter (PList xs) = Inr xs"
| "py_iter (PStr s) = Inr (map (\<lambda>c. PStr [c]) s)"
| "py_iter (PDict d) = Inr (map PStr (remdups (map fst d)))"
| "py_iter PNone = Inl TypeError"
| "py_iter (PBool b) = Inl TypeError"
| "py_iter (PInt n) = Inl TypeError"
| "py_iter (PFloat x) = Inl TypeError"

text \<open>
  The body of the \<open>try\<close> (lines 144-146): the new row and the new \<open>sub_total_amount\<close>,
  or the exception raised. \<open>item.get\<close> needs a dictionary. Both conversions come before
  the addition to \<open>sub_total_amount\<close>.
\<close>

definition try_row :: "env \<Rightarrow> pyval \<Rightarrow> rat \<Rightarrow> error + row \<times> rat" where
  "try_row env item sub_total_amount =
     (case item of
        PDict d \<Rightarrow>
          (case py_float env (dict_get d ''price'' (PFloat 0)) of
             Inl e \<Rightarrow> Inl e
           | Inr price \<Rightarrow>
               (case py_float env (dict_get d ''qty'' (PFloat 0)) of
                  Inl e \<Rightarrow> Inl e
                | Inr qty \<Rightarrow>
                    (let item_subtotal = price * qty;
                         price_str = (if price \<noteq> 0 then fmt2 price else '''');
                         qty_str = py_str env (PFloat qty);
                         item_subtotal_str = fmt2 item_subtotal
                     in Inr ([Paragraph (dict_get d ''desc'' (PStr '''')) style_table_cell,
                              Paragraph (PStr price_str) style_table_cell_center,
                              Paragraph (PStr qty_str) style_table_cell_center,
                              Paragraph (PStr item_subtotal_str) style_table_cell_right],
                             sub_total_amount + item_subtotal))))
      | _ \<Rightarrow> Inl AttributeError)"

text \<open>The handler (line 147) and the exceptions it takes.\<close>

definition except_row :: "env \<Rightarrow> pyval \<Rightarrow> error + row" where
  "except_row env item =
     (case item of
        PDict d \<Rightarrow>
          Inr [Paragraph (PStr (py_str env (dict_get d ''desc'' (PStr '''')) @
                               '' (Invalid Price/Qty)'')) style_table_cell,
               Str '''', Str '''', Str '''']
      | _ \<Rightarrow> Inl AttributeError)"

definition caught :: "error \<Rightarrow> bool" where
  "caught e = (e = ValueError \<or> e = TypeError)"

definition item_step :: "env \<Rightarrow> pyval \<Rightarrow> row list \<times> rat \<Rightarrow> error + row list \<times> rat" where
  "item_step env item st =
     (let (table_data, sub_total_amount) = st
      in case try_row env item sub_total_amount of
           Inr (r, s) \<Rightarrow> Inr (table_data @ [r], s)
         | Inl e \<Rightarrow>
             if caught e
             then (case except_row env item of
                     Inl e' \<Rightarrow> Inl e'
                   | Inr r \<Rightarrow> Inr (table_data @ [r], sub_total_amount))
             else Inl e)"

fun items_loop :: "env \<Rightarrow> pyval list \<Rightarrow> row list \<times> rat \<Rightarrow> error + row list \<times> rat" where
  "items_loop env [] st = Inr st"
| "items_loop env (item # rest) st =
     (case item_step env item st of
        Inl e \<Rightarrow> Inl e
      | Inr st' \<Rightarrow> items_loop env rest st')"

subsection \<open>The table (lines 148-151)\<close>

definition col_widths :: "rat list" where
  "col_widths =
     [CONTENT_WIDTH * 0.50, CONTENT_WIDTH * 0.15, CONTENT_WIDTH * 0.15, CONTENT_WIDTH * 0.20]"

definition table_style :: "row list \<Rightarrow> tcmd list" where
  "table_style table_data =
     [(''BACKGROUND'', (0, 0), (-1, 0), [AColor TABLE_HEADER_RED]),
      (''TEXTCOLOR'', (0, 0), (-1, 0), [AColor white]),
      (''ALIGN'', (0, 0), (-1, 0), [AStr ''CENTER'']),
      (''VALIGN'', (0, 0), (-1, 0), [AStr ''MIDDLE'']),
      (''FONTNAME'', (0, 0), (-1, 0), [AStr ''Helvetica-Bold'']),
      (''FONTSIZE'', (0, 0), (-1, 0), [ANum 9]),
      (''BOTTOMPADDING'', (0, 0), (-1, 0), [ANum 6]),
      (''TOPPADDING'', (0, 0), (-1, 0), [ANum 6]),
      (''ALIGN'', (1, 1), (1, -1), [AStr ''CENTER'']),
      (''ALIGN'', (2, 1), (2, -1), [AStr ''CENTER'']),
      (''ALIGN'', (3, 1), (3, -1), [AStr ''RIGHT'']),
      (''VALIGN'', (0, 1), (-1, -1), [AStr ''TOP'']),
      (''FONTNAME'', (0, 1), (-1, -1), [AStr ''Helvetica'']),
      (''FONTSIZE'', (0, 1), (-1, -1), [ANum 9]),
      (''BOTTOMPADDING'', (0, 1), (-1, -1), [ANum 4]),
      (''TOPPADDING'', (0, 1), (-1, -1), [ANum 4]),
      (''LEFTPADDING'', (0, 1), (0, -1), [ANum 5]),
      (''RIGHTPADDING'', (-1, 1), (-1, -1), [ANum 5]),
      (''LINEBELOW'', (0, 0), (-1, 0), [ANum 1, AColor TABLE_HEADER_RED])] @
     map (\<lambda>i. (''LINEBELOW'', (0, int i), (-1, int i), [ANum 0.5, AColor lightgrey]))
       [1 ..< length table_data - 1] @
     [(''LINEBELOW'', (0, -1), (-1, -1), [ANum 1, AColor black])]"

definition table_section :: "env \<Rightarrow> row list \<Rightarrow> rat \<Rightarrow> canvas_op list \<times> rat" where
  "table_section env table_data y_pos =
     (let table_height = table_wrap_height env table_data col_widths (table_style table_data);
          table_bottom_y = y_pos - table_height
      in ([DrawTable table_data col_widths (table_style table_data) LEFT_MARGIN
             (y_pos - table_height)],
          table_bottom_y))"

subsection \<open>The financial summary (lines 153-158)\<close>

text \<open>
  Line 153. \<open>discount_amount\<close>, \<open>gst_rate\<close> and \<open>advance_payment\<close> are the values read
  from the dictionary; an operand that is not a number raises \<open>TypeError\<close>.
\<close>

definition totals :: "rat \<Rightarrow> pyval \<Rightarrow> pyval \<Rightarrow> pyval \<Rightarrow> error + rat \<times> rat \<times> rat" where
  "totals sub_total_amount discount_amount gst_rate advance_payment =
     (case py_num discount_amount of
        Inl e \<Rightarrow> Inl e
      | Inr d \<Rightarrow>
          (case py_num gst_rate of
             Inl e \<Rightarrow> Inl e
           | Inr g \<Rightarrow>
               (case py_num advance_payment of
                  Inl e \<Rightarrow> Inl e
                | Inr a \<Rightarrow>
                    (let gst_total = (sub_total_amount - d) * (g / 100);
                         grand_total = sub_total_amount - d + gst_total;
                         total_due = grand_total - a
                     in Inr (gst_total, grand_total, total_due)))))"

text \<open>\<open>f"{v:,.2f}"\<close> for a value of the dictionary.\<close>

fun py_format2 :: "pyval \<Rightarrow> error + string" where
  "py_format2 (PBool b) = Inr (fmt2 (if b then 1 else 0))"
| "py_format2 (PInt n) = Inr (fmt2 (of_int n))"
| "py_format2 (PFloat x) = Inr (fmt2 x)"
| "py_format2 (PStr s) = Inl ValueError"
| "py_format2 PNone = Inl TypeError"
| "py_format2 (PList xs) = Inl TypeError"
| "py_format2 (PDict d) = Inl TypeError"

text \<open>Line 155.\<close>

definition summary_items ::
  "env \<Rightarrow> rat \<Rightarrow> pyval \<Rightarrow> pyval \<Rightarrow> rat \<Rightarrow> pyval \<Rightarrow> error + (string \<times> string) list" where
  "summary_items env sub_total_amount discount_amount gst_rate gst_total advance_payment =
     (case py_format2 discount_amount of
        Inl e \<Rightarrow> Inl e
      | Inr discount_str \<Rightarrow>
          (case py_format2 advance_payment of
             Inl e \<Rightarrow> Inl e
           | Inr advance_str \<Rightarrow>
               Inr [(''Sub-total :'', fmt2 sub_total_amount),
                    (''Discount :'', ''- '' @ discount_str),
                    (''GST ('' @ py_str env gst_rate @ ''%) :'', ''+ '' @ fmt2 gst_total),
                    (''Advance Payment :'', ''- '' @ advance_str)]))"

text \<open>The loop of line 157: a label on the left and a value on the right per entry.\<close>

fun summary_lines ::
  "rat \<Rightarrow> rat \<Rightarrow> rat \<Rightarrow> (string \<times> string) list \<Rightarrow> canvas_op list \<times> rat" where
  "summary_lines summary_x summary_line_height current_summary_y [] = ([], current_summary_y)"
| "summary_lines summary_x summary_line_height current_summary_y ((label, val) # rest) =
     (let (ops, y) = summary_lines summary_x summary_line_height
                       (current_summary_y - summary_line_height) rest
      in (DrawString summary_x current_summary_y label #
          DrawRightString (PAGE_WIDTH - RIGHT_MARGIN) current_summary_y (PStr val) # ops, y))"

text \<open>Lines 154 and 156-158: the lines, then the band of the amount due.\<close>

definition summary_section ::
  "rat \<Rightarrow> (string \<times> string) list \<Rightarrow> rat \<Rightarrow> canvas_op list \<times> rat" where
  "summary_section table_bottom_y entries total_due =
     (let summary_x = PAGE_WIDTH / 2 + 0.5 * inch;
          summary_width = PAGE_WIDTH - RIGHT_MARGIN - summary_x;
          summary_y_start = table_bottom_y - 0.3 * inch;
          summary_line_height = 0.25 * inch;
          (lines, current_summary_y) =
            summary_lines summary_x summary_line_height summary_y_start entries;
          total_due_y = current_summary_y;
          total_due_height = 0.4 * inch;
          band =
            [SetFillColor DARK_RED,
             RoundRect (summary_x - 0.1 * inch) (total_due_y - total_due_height + 0.05 * inch)
               (summary_width + 0.1 * inch) total_due_height 3 False True,
             SetFont ''Helvetica-Bold'' 12, SetFillColor white,
             DrawString (summary_x + 0.1 * inch) (total_due_y - 0.25 * inch) ''Total Due :'',
             DrawRightString (PAGE_WIDTH - RIGHT_MARGIN - 0.1 * inch) (total_due_y - 0.25 * inch)
               (PStr (fmt2 total_due)),
             SetFillColor black];
          summary_bottom_y = total_due_y - total_due_height
      in (SetFont ''Helvetica'' 10 # lines @ band, summary_bottom_y))"

subsection \<open>Terms, contact and bank details (lines 160-179)\<close>

text \<open>The check mark of the terms (U+2714) is beyond the characters of the model; it
  stands as the three bytes of its UTF-8 form. The text is only handed to the canvas.\<close>

definition terms_text :: string where
  "terms_text =
     ''Please Pay 40% Advance payment within 12 Hours of receiving this invoice'' @
     [CHR 0x0A] @
     ''For Instant Booking Confirmation.<br/><font color='green'>'' @
     [CHR 0xE2, CHR 0x9C, CHR 0x94] @
     ''</font> 100% REFUND ON CANCELLATION<br/>(15 Days)''"

definition terms_section :: "env \<Rightarrow> rat \<Rightarrow> canvas_op list \<times> rat" where
  "terms_section env table_bottom_y =
     (let terms_x = LEFT_MARGIN;
          terms_width = CONTENT_WIDTH * 0.55;
          terms_y = table_bottom_y - 0.3 * inch;
          head_text = ''<b>TERMS AND CONDITIONS</b>'';
          head_par = [DrawParagraph head_text style_h2 terms_width terms_x terms_y];
          terms_y = terms_y - (para_height env head_text style_h2 terms_width + 0.15 * inch);
          body_height = para_height env terms_text style_normal terms_width;
          body_par =
            [DrawParagraph terms_text style_normal terms_width terms_x (terms_y - body_height)];
          terms_y = terms_y - (body_height + 0.3 * inch)
      in (head_par @ body_par, terms_y))"

fun contact_rows :: "env \<Rightarrow> (string \<times> string) list \<Rightarrow> rat \<Rightarrow> canvas_op list \<times> rat" where
  "contact_rows env [] contact_y = ([], contact_y)"
| "contact_rows env ((label, val) # rest) contact_y =
     (let terms_x = LEFT_MARGIN;
          terms_width = CONTENT_WIDTH * 0.55;
          line_start_y = contact_y;
          label_text = ''<b>'' @ label @ ''</b>'';
          label_width = 0.6 * inch;
          label_height = para_height env label_text style_normal label_width;
          value_style =
            ParagraphStyle (''ValueStatic_'' @ take 3 label) style_normal
              (Some (label_width + 0.1 * inch)) None;
          value_width = terms_width - (label_width + 0.1 * inch);
          value_height = para_height env val value_style value_width;
          (ops, y) =
            contact_rows env rest (contact_y - (max label_height value_height + 0.1 * inch))
      in (DrawParagraph label_text style_normal label_width terms_x
            (line_start_y - label_height) #
          DrawParagraph val value_style value_width terms_x (line_start_y - value_height) #
          ops, y))"

definition contact_section :: "env \<Rightarrow> rat \<Rightarrow> canvas_op list \<times> rat" where
  "contact_section env terms_y =
     (let terms_x = LEFT_MARGIN;
          terms_width = CONTENT_WIDTH * 0.55;
          contact_y = terms_y;
          head_text = ''<b>THANK YOU FOR CHOOSING US!</b>'';
          head_par = [DrawParagraph head_text style_h2 terms_width terms_x contact_y];
          contact_y = contact_y - (para_height env head_text style_h2 terms_width + 0.2 * inch);
          contact_info_static =
            [(''Phone:'', ''+91 8250133947 / +91 9883023091''),
             (''Website:'', ''www.yaraservice.com''),
             (''Address:'', ''Gangtok, Lumsey Sikkim - 737101'')];
          (ops, contact_y) = contact_rows env contact_info_static contact_y
      in (head_par @ ops, contact_y))"

fun bank_rows :: "env \<Rightarrow> (string \<times> string) list \<Rightarrow> rat \<Rightarrow> canvas_op list \<times> rat" where
  "bank_rows env [] bank_details_y = ([], bank_details_y)"
| "bank_rows env ((label, val) # rest) bank_details_y =
     (let terms_x = LEFT_MARGIN;
          terms_width = CONTENT_WIDTH * 0.55;
          label_text = ''<b>'' @ label @ ''</b>'';
          label_width = 1.0 * inch;
          label_height = para_height env label_text style_normal label_width;
          value_style =
            ParagraphStyle (''BankValue_'' @ take 3 label) style_normal
              (Some (label_width + 0.05 * inch)) None;
          value_width = terms_width - (label_width + 0.05 * inch);
          value_height = para_height env val value_style value_width;
          (ops, y) =
            bank_rows env rest (bank_details_y - (max label_height value_height + 0.05 * inch))
      in (DrawParagraph label_text style_normal label_width terms_x bank_details_y #
          DrawParagraph val value_style value_width terms_x bank_details_y #
          ops, y))"

definition bank_section :: "env \<Rightarrow> rat \<Rightarrow> canvas_op list \<times> rat" where
  "bank_section env contact_y =
     (let terms_x = LEFT_MARGIN;
          terms_width = CONTENT_WIDTH * 0.55;
          bank_details_y = contact_y - 0.3 * inch;
          head_text = ''<b>Bank Details:</b>'';
          head_par = [DrawParagraph head_text style_h2 terms_width terms_x bank_details_y];
          bank_details_y =
            bank_details_y - (para_height env head_text style_h2 terms_width + 0.1 * inch);
          bank_info =
            [(''Acc no:'', ''120033745630''), (''IFSC code:'', ''CNRB0003731''),
             (''Bank:'', ''Canara Bank''), (''Account Holder:'', ''Yara services'')];
          (ops, bank_details_bottom_y) = bank_rows env bank_info bank_details_y
      in (head_par @ ops, bank_details_bottom_y))"

subsection \<open>Signature and footer (lines 181-186)\<close>

definition signature_section :: "env \<Rightarrow> rat \<Rightarrow> rat \<Rightarrow> canvas_op list" where
  "signature_section env summary_bottom_y bank_details_bottom_y =
     (let sig_base_y = min summary_bottom_y bank_details_bottom_y - 0.2 * inch;
          sig_width = 1.5 * inch;
          sig_x = PAGE_WIDTH - RIGHT_MARGIN - sig_width;
          sig_img_width = 1.0 * inch;
          sig_img_height = 0.5 * inch;
          sig_img =
            draw_logo env (SIGNATURE_PATH env) (sig_x + (sig_width - sig_img_width) / 2)
              sig_base_y sig_img_width sig_img_height;
          sig_text_y = sig_base_y - 0.1 * inch;
          sig_text = ''NORTH SIKKIM TOURS &<br/>TRAVELS PVT .LTD''
      in sig_img @
         [DrawParagraph sig_text style_center sig_width sig_x
            (sig_text_y - para_height env sig_text style_center sig_width)])"

definition footer_section :: "env \<Rightarrow> pyval \<Rightarrow> pyval \<Rightarrow> canvas_op list" where
  "footer_section env inv_no inv_date_str =
     (let footer_y = BOTTOM_MARGIN
      in [SetFillColor HEADER_RED,
          Line LEFT_MARGIN (footer_y + 0.25 * inch) (PAGE_WIDTH - RIGHT_MARGIN)
            (footer_y + 0.25 * inch),
          SetFillColor black,
          DrawParagraph
            (''INVOICE NO: '' @ py_str env inv_no @ '' | INVOICE DATE: '' @ py_str env inv_date_str)
            style_footer (CONTENT_WIDTH / 2) LEFT_MARGIN footer_y])"

subsection \<open>The whole render\<close>

text \<open>
  A finished render: the calls on the canvas, region by region in the order they are
  made, and the values the local variables of these names hold when the function
  returns. An exception that leaves the function is the \<open>Inl\<close> result.
\<close>

record render =
  ops_header :: "canvas_op list"
  ops_company :: "canvas_op list"
  ops_party :: "canvas_op list"
  ops_table :: "canvas_op list"
  ops_summary :: "canvas_op list"
  ops_terms :: "canvas_op list"
  ops_contact :: "canvas_op list"
  ops_bank :: "canvas_op list"
  ops_signature :: "canvas_op list"
  ops_footer :: "canvas_op list"
  out_due_date_str :: pyval
  out_client_address_lines :: "string list"
  out_y_pos_left :: rat
  out_y_pos_right :: rat
  out_table_start_y :: rat
  out_table_data :: "row list"
  out_sub_total_amount :: rat
  out_gst_total :: rat
  out_grand_total :: rat
  out_total_due :: rat

definition canvas_ops :: "render \<Rightarrow> canvas_op list" where
  "canvas_ops r =
     ops_header r @ ops_company r @ ops_party r @ ops_table r @ ops_summary r @
     ops_terms r @ ops_contact r @ ops_bank r @ ops_signature r @ ops_footer r"

definition create_invoice_pdf :: "env \<Rightarrow> pydict \<Rightarrow> error + render" where
  "create_invoice_pdf env invoice_data =
     (let inv_no = dict_get invoice_data ''invoice_no'' (PStr ''N/A'');
          inv_date_str = dict_get invoice_data ''invoice_date'' (PStr (today env));
          due_date_str = dict_get invoice_data ''due_date'' (PStr ''N/A'');
          client_name = dict_get invoice_data ''client_name'' (PStr '''');
          client_phone = dict_get invoice_data ''client_phone'' (PStr '''');
          client_email = dict_get invoice_data ''client_email'' (PStr '''')
      in case address_lines invoice_data of
           Inl e \<Rightarrow> Inl e
         | Inr client_address_lines \<Rightarrow>
      (let items = dict_get invoice_data ''items'' (PList []);
           discount_amount = dict_get invoice_data ''discount'' (PFloat 0.0);
           advance_payment = dict_get invoice_data ''advance_payment'' (PFloat 0.0);
           gst_rate = dict_get invoice_data ''gst_rate'' (PFloat 5.0);
           (header, y_pos_left, y_pos_right) =
             header_section env inv_no inv_date_str due_date_str;
           (company, y_pos_left) = company_section env y_pos_left
       in case party_loop env client_address_lines
                 (cust_info_dynamic env client_name client_phone client_email
                    client_address_lines)
                 ([], y_pos_left) of
            Inl e \<Rightarrow> Inl e
          | Inr (party, y_left) \<Rightarrow>
      (let table_start_y = min y_left y_pos_right - 0.3 * inch;
           y_pos = table_start_y
       in case py_iter items of
            Inl e \<Rightarrow> Inl e
          | Inr item_list \<Rightarrow>
      (case items_loop env item_list ([table_header_row], 0.0) of
            Inl e \<Rightarrow> Inl e
          | Inr (table_data, sub_total_amount) \<Rightarrow>
      (let (table, table_bottom_y) = table_section env table_data y_pos
       in case totals sub_total_amount discount_amount gst_rate advance_payment of
            Inl e \<Rightarrow> Inl e
          | Inr (gst_total, grand_total, total_due) \<Rightarrow>
      (case summary_items env sub_total_amount discount_amount gst_rate gst_total
              advance_payment of
            Inl e \<Rightarrow> Inl e
          | Inr entries \<Rightarrow>
      (let (summary, summary_bottom_y) = summary_section table_bottom_y entries total_due;
           (terms, terms_y) = terms_section env table_bottom_y;
           (contact, contact_y) = contact_section env terms_y;
           (bank, bank_details_bottom_y) = bank_section env contact_y
       in Inr \<lparr>ops_header = header, ops_company = company, ops_party = party,
                ops_table = table, ops_summary = summary, ops_terms = terms,
                ops_contact = contact, ops_bank = bank,
                ops_signature = signature_section env summary_bottom_y bank_details_bottom_y,
                ops_footer = footer_section env inv_no inv_date_str,
                out_due_date_str = due_date_str,
                out_client_address_lines = client_address_lines,
                out_y_pos_left = y_left, out_y_pos_right = y_pos_right,
                out_table_start_y = table_start_y, out_table_data = table_data,
                out_sub_total_amount = sub_total_amount, out_gst_total = gst_total,
                out_grand_total = grand_total, out_total_due = total_due\<rparr>)))))))"

section \<open>The request model and the endpoints (lines 193-273)\<close>

record InvoiceItem =
  desc :: string
  price :: rat
  qty :: rat

text \<open>
  A validated request. An optional field that the request leaves out is \<open>None\<close>;
  \<open>discount\<close>, \<open>advance_payment\<close> and \<open>gst_rate\<close> hold their defaults 0.0, 0.0 and 5.0
  when left out.
\<close>

record InvoiceRequestData =
  invoice_no :: string
  invoice_date :: string
  due_date :: "string option"
  client_name :: string
  client_phone :: "string option"
  client_email :: "string option"
  client_address :: "string option"
  items :: "InvoiceItem list"
  discount :: rat
  advance_payment :: rat
  gst_rate :: rat

text \<open>
  \<open>data.model_dump(by_alias=True)\<close>: every field is a key of the dictionary, under its
  alias when it has one (\<open>advancePayment\<close>, \<open>gstRate\<close>) and under its name otherwise; a
  field that is \<open>None\<close> is a key with the value \<open>None\<close>.
\<close>

definition dump_optional :: "string option \<Rightarrow> pyval" where
  "dump_optional v = (case v of None \<Rightarrow> PNone | Some s \<Rightarrow> PStr s)"

definition dump_item :: "InvoiceItem \<Rightarrow> pyval" where
  "dump_item i = PDict [(''desc'', PStr (desc i)), (''price'', PFloat (price i)),
                        (''qty'', PFloat (qty i))]"

definition model_dump_by_alias :: "InvoiceRequestData \<Rightarrow> pydict" where
  "model_dump_by_alias data =
     [(''invoice_no'', PStr (invoice_no data)),
      (''invoice_date'', PStr (invoice_date data)),
      (''due_date'', dump_optional (due_date data)),
      (''client_name'', PStr (client_name data)),
      (''client_phone'', dump_optional (client_phone data)),
      (''client_email'', dump_optional (client_email data)),
      (''client_address'', dump_optional (client_address data)),
      (''items'', PList (map dump_item (items data))),
      (''discount'', PFloat (discount data)),
      (''advancePayment'', PFloat (advance_payment data)),
      (''gstRate'', PFloat (gst_rate data))]"

text \<open>A response: the streamed document with its media type and \<open>Content-Disposition\<close>
  header, or the HTTP error raised for any exception.\<close>

datatype response = StreamingResponse render string string | HTTPException nat

definition generate_invoice_api :: "env \<Rightarrow> InvoiceRequestData \<Rightarrow> response" where
  "generate_invoice_api env data =
     (case create_invoice_pdf env (model_dump_by_alias data) of
        Inl e \<Rightarrow> HTTPException 500
      | Inr pdf_buffer \<Rightarrow>
          StreamingResponse pdf_buffer ''application/pdf''
            (''attachment; filename='' @ [CHR 0x22] @ filename (invoice_no data) @ [CHR 0x22]))"

definition view_invoice_api :: "env \<Rightarrow> InvoiceRequestData \<Rightarrow> response" where
  "view_invoice_api env data =
     (case create_invoice_pdf env (model_dump_by_alias data) of
        Inl e \<Rightarrow> HTTPException 500
      | Inr pdf_buffer \<Rightarrow>
          StreamingResponse pdf_buffer ''application/pdf''
            (''inline; filename='' @ [CHR 0x22] @ filename (invoice_no data) @ [CHR 0x22]))"

section \<open>The vocabulary of the specification\<close>

text \<open>
  The definitions of this section are not translations of code. They say what the
  specification's words mean, for comparison with the functions above.
\<close>

subsection \<open>Records the layout accepts\<close>

fun is_str :: "pyval \<Rightarrow> bool" where
  "is_str (PStr s) = True"
| "is_str v = False"

fun is_dict :: "pyval \<Rightarrow> bool" where
  "is_dict (PDict d) = True"
| "is_dict v = False"

fun is_number :: "pyval \<Rightarrow> bool" where
  "is_number (PBool b) = True"
| "is_number (PInt n) = True"
| "is_number (PFloat x) = True"
| "is_number v = False"

text \<open>The line items of a record, in their order (none when the value is not iterable).\<close>

definition record_items :: "pydict \<Rightarrow> pyval list" where
  "record_items d =
     (case py_iter (dict_get d ''items'' (PList [])) of Inr its \<Rightarrow> its | Inl e \<Rightarrow> [])"

text \<open>
  A record is well typed when the client's name and address are strings or false
  values, the items can be iterated and are dictionaries, and the discount, the GST
  rate and the advance payment that the layout reads are numbers. Nothing is asked of
  the prices and quantities.
\<close>

definition well_typed :: "pydict \<Rightarrow> bool" where
  "well_typed d =
     ((is_str (dict_get d ''client_name'' (PStr '''')) \<or>
       \<not> truthy (dict_get d ''client_name'' (PStr ''''))) \<and>
      (is_str (dict_get d ''client_address'' PNone) \<or>
       \<not> truthy (dict_get d ''client_address'' PNone)) \<and>
      (case py_iter (dict_get d ''items'' (PList [])) of
         Inr its \<Rightarrow> list_all is_dict its
       | Inl e \<Rightarrow> False) \<and>
      is_number (dict_get d ''discount'' (PFloat 0)) \<and>
      is_number (dict_get d ''gst_rate'' (PFloat 5)) \<and>
      is_number (dict_get d ''advance_payment'' (PFloat 0)))"

text \<open>The number a numeric value stands for (0 for a value that is no number).\<close>

definition number_of :: "pyval \<Rightarrow> rat" where
  "number_of v = (case py_num v of Inr x \<Rightarrow> x | Inl e \<Rightarrow> 0)"

subsection \<open>Line items\<close>

text \<open>The price and quantity of a line item when both can be coerced to numbers.\<close>

definition coerced :: "env \<Rightarrow> pyval \<Rightarrow> (rat \<times> rat) option" where
  "coerced env item =
     (case item of
        PDict i \<Rightarrow>
          (case py_float env (dict_get i ''price'' (PFloat 0)) of
             Inr p \<Rightarrow>
               (case py_float env (dict_get i ''qty'' (PFloat 0)) of
                  Inr q \<Rightarrow> Some (p, q)
                | Inl e \<Rightarrow> None)
           | Inl e \<Rightarrow> None)
      | _ \<Rightarrow> None)"

definition item_desc :: "pyval \<Rightarrow> pyval" where
  "item_desc item = (case item of PDict i \<Rightarrow> dict_get i ''desc'' (PStr '''') | _ \<Rightarrow> PStr '''')"

definition item_price :: "env \<Rightarrow> pyval \<Rightarrow> rat" where
  "item_price env item = (case coerced env item of Some (p, q) \<Rightarrow> p | None \<Rightarrow> 0)"

definition item_qty :: "env \<Rightarrow> pyval \<Rightarrow> rat" where
  "item_qty env item = (case coerced env item of Some (p, q) \<Rightarrow> q | None \<Rightarrow> 0)"

text \<open>What a fully valid item adds to the sub-total; an item that is not adds nothing.\<close>

definition line_amount :: "env \<Rightarrow> pyval \<Rightarrow> rat" where
  "line_amount env item = (case coerced env item of Some (p, q) \<Rightarrow> p * q | None \<Rightarrow> 0)"

text \<open>The row of a valid item, and the flagged row of an item that is not.\<close>

definition valid_row :: "env \<Rightarrow> pyval \<Rightarrow> rat \<Rightarrow> rat \<Rightarrow> row" where
  "valid_row env item p q =
     [Paragraph (item_desc item) style_table_cell,
      Paragraph (PStr (if p \<noteq> 0 then fmt2 p else '''')) style_table_cell_center,
      Paragraph (PStr (py_str env (PFloat q))) style_table_cell_center,
      Paragraph (PStr (fmt2 (p * q))) style_table_cell_right]"

definition flagged_row :: "env \<Rightarrow> pyval \<Rightarrow> row" where
  "flagged_row env item =
     [Paragraph (PStr (py_str env (item_desc item) @ '' (Invalid Price/Qty)'')) style_table_cell,
      Str '''', Str '''', Str '''']"

definition expected_row :: "env \<Rightarrow> pyval \<Rightarrow> row" where
  "expected_row env item =
     (case coerced env item of
        Some (p, q) \<Rightarrow> valid_row env item p q
      | None \<Rightarrow> flagged_row env item)"

subsection \<open>The height of the client block\<close>

text \<open>The height by which one entry of the client block moves the left cursor.\<close>

definition entry_height :: "env \<Rightarrow> string list \<Rightarrow> pyval \<times> pstyle \<Rightarrow> rat" where
  "entry_height env client_address_lines entry =
     (case fst entry of
        PStr t \<Rightarrow>
          (if t = [] then 0
           else para_height env t (p_style client_address_lines t (snd entry))
                  (3 * inch + 1 * inch))
      | _ \<Rightarrow> 0)"

subsection \<open>What a region shows\<close>

text \<open>The right-aligned texts of a list of calls, in the order they are drawn, and
  whether a call draws a rectangle.\<close>

fun right_texts :: "canvas_op list \<Rightarrow> pyval list" where
  "right_texts [] = []"
| "right_texts (DrawRightString x y t # ops) = t # right_texts ops"
| "right_texts (other # ops) = right_texts ops"

fun is_rect :: "canvas_op \<Rightarrow> bool" where
  "is_rect (RoundRect x y w h r s f) = True"
| "is_rect other = False"

subsection \<open>Currency strings\<close>

definition is_digit :: "char \<Rightarrow> bool" where
  "is_digit c = (c \<in> set ''0123456789'')"

text \<open>
  Read from the right, an integer part with thousands separators is groups of three
  digits, each followed by a comma, and then a last group of one to three digits.
\<close>

fun grouped_rev :: "string \<Rightarrow> bool" where
  "grouped_rev (a # b # c # d # rest) =
     (is_digit a \<and> is_digit b \<and> is_digit c \<and> d = CHR '','' \<and> grouped_rev rest)"
| "grouped_rev [a, b, c] = (is_digit a \<and> is_digit b \<and> is_digit c)"
| "grouped_rev [a, b] = (is_digit a \<and> is_digit b)"
| "grouped_rev [a] = is_digit a"
| "grouped_rev [] = False"

text \<open>
  A currency string: an optional minus sign, an integer part with thousands
  separators, a point and exactly two digits.
\<close>

definition currency_format :: "string \<Rightarrow> bool" where
  "currency_format s =
     (case rev (if starts_with ''-'' s then tl s else s) of
        b # a # dot # int_rev \<Rightarrow>
          is_digit a \<and> is_digit b \<and> dot = CHR ''.'' \<and> grouped_rev int_rev
      | _ \<Rightarrow> False)"

subsection \<open>An environment and a request for the examples\<close>

text \<open>
  No image file exists, every paragraph is 11 points high, a table row 20 points, no
  string is a number, and a float with an integer value prints as Python prints it.
\<close>

definition example_env :: env where
  "example_env =
     \<lparr>float_of_str = (\<lambda>s. None),
      repr = (\<lambda>v. case v of
                     PFloat x \<Rightarrow> (if x < 0 then ''-'' else '''') @ digits (nat \<lfloor>\<bar>x\<bar>\<rfloor>) @ ''.0''
                   | _ \<Rightarrow> ''...''),
      para_height = (\<lambda>t s w. 11),
      table_wrap_height = (\<lambda>rows w st. 20 * of_nat (length rows)),
      today = ''04.11.26'',
      base_dir = ''/app'',
      asset = (\<lambda>p. Missing)\<rparr>"

text \<open>The request of the endpoint scenario: one item, no discount, GST 5, advance 500.\<close>

definition example_request :: InvoiceRequestData where
  "example_request =
     \<lparr>invoice_no = ''INV/2024#01'', invoice_date = ''01.01.24'', due_date = None,
      client_name = ''Sourav Saha'', client_phone = None, client_email = None,
      client_address = None,
      items = [\<lparr>desc = ''Trek'', price = 1000, qty = 2\<rparr>],
      discount = 0, advance_payment = 500, gst_rate = 5\<rparr>"

section \<open>Properties\<close>

lemma isalnum_not_isspace: "isalnum c \<Longrightarrow> \<not> isspace c"
  by (auto simp: isalnum_def isspace_def Let_def)

lemma rstrip_no_space:
  assumes "\<forall>c \<in> set s. \<not> isspace c"
  shows "rstrip s = s"
proof -
  have "rev s = [] \<or> \<not> isspace (hd (rev s))"
    using assms hd_in_set [of "rev s"] by auto
  then have "dropWhile isspace (rev s) = rev s"
    by (simp add: dropWhile_eq_self_iff)
  then show ?thesis by (simp add: rstrip_def)
qed

subsection \<open>The download filename\<close>

lemma inv_no_filename_filter:
  "inv_no_filename number =
     filter (\<lambda>c. isalnum c \<or> c = CHR ''-'' \<or> c = CHR ''_'') number"
proof -
  have "\<forall>c \<in> set (filter (\<lambda>c. isalnum c \<or> c \<in> {CHR ''-'', CHR ''_''}) number).
          \<not> isspace c"
    using isalnum_not_isspace by (auto simp: isspace_def)
  then show ?thesis
    unfolding inv_no_filename_def by (simp add: rstrip_no_space)
qed

text \<open>
  C5. For every invoice number, the download filename is \<open>invoice_\<close>, then the
  invoice number's alphanumeric characters, hyphens and underscores in their order,
  then \<open>.pdf\<close>; when no character is kept, \<open>generated\<close> stands in their place. The
  \<open>rstrip\<close> of the source removes nothing, since no kept character is whitespace.
\<close>

theorem filename_sanitized:
  "filename number =
     ''invoice_'' @
     (let S = filter (\<lambda>c. isalnum c \<or> c = CHR ''-'' \<or> c = CHR ''_'') number
      in if S = [] then ''generated'' else S) @
     ''.pdf''"
  by (simp add: filename_def inv_no_filename_filter Let_def)

theorem filename_sanitized_witness:
  "filename ''INV/2024#01'' = ''invoice_INV202401.pdf'' \<and>
   filename '''' = ''invoice_generated.pdf'' \<and>
   filename ''#/ !'' = ''invoice_generated.pdf'' \<and>
   filename ''a b_c-d'' = ''invoice_ab_c-d.pdf''"
  using filename_sanitized [of "''INV/2024#01''"] filename_sanitized [of "''''"]
    filename_sanitized [of "''#/ !''"] filename_sanitized [of "''a b_c-d''"]
  by (simp add: isalnum_def)

subsection \<open>The loops over the line items and over the client block\<close>

lemma py_float_caught: "py_float env v = Inl e \<Longrightarrow> caught e"
  by (cases v) (auto simp: caught_def split: option.splits)

lemma item_step_dict:
  assumes "is_dict item"
  shows "item_step env item (rows, s) =
           Inr (rows @ [expected_row env item], s + line_amount env item)"
proof -
  from assms obtain i where item: "item = PDict i" by (cases item) auto
  show ?thesis
  proof (cases "coerced env item")
    case None
    then have "\<exists>e. try_row env item s = Inl e \<and> caught e"
      using py_float_caught
      by (auto simp: item coerced_def try_row_def split: sum.splits)
    then show ?thesis
      using None
      by (auto simp: item item_step_def except_row_def expected_row_def line_amount_def
            flagged_row_def item_desc_def)
  next
    case (Some pq)
    then show ?thesis
      by (cases pq)
        (auto simp: item item_step_def try_row_def coerced_def expected_row_def line_amount_def
            valid_row_def item_desc_def Let_def split: sum.splits)
  qed
qed

lemma items_loop_dicts:
  "list_all is_dict its \<Longrightarrow>
   items_loop env its (rows, s) =
     Inr (rows @ map (expected_row env) its, s + sum_list (map (line_amount env) its))"
  by (induction its arbitrary: rows s) (simp_all add: item_step_dict)

lemma party_step_ok:
  assumes "is_str (fst entry) \<or> \<not> truthy (fst entry)"
  shows "\<exists>ops'. party_step env ls entry (ops, y) = Inr (ops', y - entry_height env ls entry)"
  using assms
  by (cases entry; cases "fst entry")
    (auto simp: party_step_def entry_height_def Let_def)

lemma party_loop_ok:
  "list_all (\<lambda>e. is_str (fst e) \<or> \<not> truthy (fst e)) es \<Longrightarrow>
   \<exists>ops'. party_loop env ls es (ops, y) =
            Inr (ops', y - sum_list (map (entry_height env ls) es))"
proof (induction es arbitrary: ops y)
  case Nil
  then show ?case by simp
next
  case (Cons e es)
  then obtain ops1 where s: "party_step env ls e (ops, y) = Inr (ops1, y - entry_height env ls e)"
    using party_step_ok [of e env ls ops y] by auto
  from Cons obtain ops2 where
    "party_loop env ls es (ops1, y - entry_height env ls e) =
       Inr (ops2, y - entry_height env ls e - sum_list (map (entry_height env ls) es))"
    by fastforce
  with s show ?case by (simp add: algebra_simps)
qed

lemma cust_info_dynamic_ok:
  assumes "is_str name \<or> \<not> truthy name"
  shows "list_all (\<lambda>e. is_str (fst e) \<or> \<not> truthy (fst e))
           (cust_info_dynamic env name phone email ls)"
  using assms by (auto simp: cust_info_dynamic_def list_all_iff)

lemma address_lines_ok:
  assumes "is_str (dict_get d ''client_address'' PNone) \<or>
           \<not> truthy (dict_get d ''client_address'' PNone)"
  shows "\<exists>ls. address_lines d = Inr ls"
  using assms
  by (cases "map_of d ''client_address''"; cases "dict_get d ''client_address'' PNone")
    (auto simp: address_lines_def dict_get_def)

lemma totals_number:
  assumes "is_number dv" "is_number gv" "is_number av"
  shows "totals s dv gv av =
           Inr ((s - number_of dv) * (number_of gv / 100),
                s - number_of dv + (s - number_of dv) * (number_of gv / 100),
                s - number_of dv + (s - number_of dv) * (number_of gv / 100) - number_of av)"
  using assms
  by (cases dv; cases gv; cases av) (simp_all add: totals_def number_of_def Let_def)

lemma py_format2_number: "is_number v \<Longrightarrow> py_format2 v = Inr (fmt2 (number_of v))"
  by (cases v) (simp_all add: number_of_def)

lemma summary_items_number:
  assumes "is_number dv" "is_number av"
  shows "summary_items env s dv gv g av =
           Inr [(''Sub-total :'', fmt2 s),
                (''Discount :'', ''- '' @ fmt2 (number_of dv)),
                (''GST ('' @ py_str env gv @ ''%) :'', ''+ '' @ fmt2 g),
                (''Advance Payment :'', ''- '' @ fmt2 (number_of av))]"
  using assms by (simp add: summary_items_def py_format2_number)

subsection \<open>The render of a well-typed record\<close>

lemma render_well_typed:
  fixes env :: env and d :: pydict
  defines "inv_no \<equiv> dict_get d ''invoice_no'' (PStr ''N/A'')"
    and "inv_date_str \<equiv> dict_get d ''invoice_date'' (PStr (today env))"
    and "due_date_str \<equiv> dict_get d ''due_date'' (PStr ''N/A'')"
    and "discount_amount \<equiv> dict_get d ''discount'' (PFloat 0)"
    and "adv \<equiv> dict_get d ''advance_payment'' (PFloat 0)"
    and "gstv \<equiv> dict_get d ''gst_rate'' (PFloat 5)"
  defines "hs \<equiv> header_section env inv_no inv_date_str due_date_str"
  defines "cs \<equiv> company_section env (fst (snd hs))"
  assumes wt: "well_typed d"
  obtains r ls where
    "create_invoice_pdf env d = Inr r"
    "address_lines d = Inr ls"
    "out_client_address_lines r = ls"
    "out_due_date_str r = due_date_str"
    "ops_header r = fst hs"
    "ops_company r = fst cs"
    "out_y_pos_right r = snd (snd hs)"
    "out_y_pos_left r =
       snd cs - sum_list (map (entry_height env ls)
         (cust_info_dynamic env (dict_get d ''client_name'' (PStr ''''))
            (dict_get d ''client_phone'' (PStr '''')) (dict_get d ''client_email'' (PStr '''')) ls))"
    "out_table_start_y r = min (out_y_pos_left r) (out_y_pos_right r) - 0.3 * inch"
    "out_table_data r = table_header_row # map (expected_row env) (record_items d)"
    "ops_table r = fst (table_section env (out_table_data r) (out_table_start_y r))"
    "out_sub_total_amount r = sum_list (map (line_amount env) (record_items d))"
    "out_gst_total r =
       (out_sub_total_amount r - number_of discount_amount) * (number_of gstv / 100)"
    "out_grand_total r = out_sub_total_amount r - number_of discount_amount + out_gst_total r"
    "out_total_due r = out_grand_total r - number_of adv"
    "ops_summary r =
       fst (summary_section (snd (table_section env (out_table_data r) (out_table_start_y r)))
              [(''Sub-total :'', fmt2 (out_sub_total_amount r)),
               (''Discount :'', ''- '' @ fmt2 (number_of discount_amount)),
               (''GST ('' @ py_str env gstv @ ''%) :'', ''+ '' @ fmt2 (out_gst_total r)),
               (''Advance Payment :'', ''- '' @ fmt2 (number_of adv))]
              (out_total_due r))"
    "\<exists>sby bby. ops_signature r = signature_section env sby bby"
    "ops_footer r = footer_section env inv_no inv_date_str"
proof -
  from wt have name_ok: "is_str (dict_get d ''client_name'' (PStr '''')) \<or>
      \<not> truthy (dict_get d ''client_name'' (PStr ''''))"
    and addr_ok: "is_str (dict_get d ''client_address'' PNone) \<or>
      \<not> truthy (dict_get d ''client_address'' PNone)"
    and nums: "is_number discount_amount" "is_number gstv" "is_number adv"
    by (simp_all add: well_typed_def discount_amount_def gstv_def adv_def)
  from wt obtain its where its: "py_iter (dict_get d ''items'' (PList [])) = Inr its"
    and dicts: "list_all is_dict its"
    by (auto simp: well_typed_def split: sum.splits)
  have ri: "record_items d = its" by (simp add: record_items_def its)
  obtain ls where ls: "address_lines d = Inr ls"
    using address_lines_ok [OF addr_ok] by blast
  obtain hdr yl0 yr where hs: "hs = (hdr, yl0, yr)" by (cases hs)
  obtain comp yl1 where cs: "cs = (comp, yl1)" by (cases cs)
  define entries where "entries = cust_info_dynamic env (dict_get d ''client_name'' (PStr ''''))
            (dict_get d ''client_phone'' (PStr '''')) (dict_get d ''client_email'' (PStr '''')) ls"
  have entries_ok: "list_all (\<lambda>e. is_str (fst e) \<or> \<not> truthy (fst e)) entries"
    unfolding entries_def by (rule cust_info_dynamic_ok [OF name_ok])
  obtain party where party:
    "party_loop env ls entries ([], yl1) =
       Inr (party, yl1 - sum_list (map (entry_height env ls) entries))"
    using party_loop_ok [OF entries_ok, where env = env and ls = ls and ops = "[]" and y = yl1]
    by blast
  define yl where "yl = yl1 - sum_list (map (entry_height env ls) entries)"
  define tsy where "tsy = min yl yr - 0.3 * inch"
  define td where "td = table_header_row # map (expected_row env) its"
  define sub where "sub = sum_list (map (line_amount env) its)"
  have loop: "items_loop env its ([table_header_row], 0) = Inr (td, sub)"
    by (simp add: items_loop_dicts [OF dicts] td_def sub_def)
  obtain tab tby where tab: "table_section env td tsy = (tab, tby)"
    by (cases "table_section env td tsy")
  define gst where "gst = (sub - number_of discount_amount) * (number_of gstv / 100)"
  define grand where "grand = sub - number_of discount_amount + gst"
  define due where "due = grand - number_of adv"
  have tot: "totals sub discount_amount gstv adv = Inr (gst, grand, due)"
    by (simp add: totals_number [OF nums] gst_def grand_def due_def)
  define es where "es = [(''Sub-total :'', fmt2 sub),
               (''Discount :'', ''- '' @ fmt2 (number_of discount_amount)),
               (''GST ('' @ py_str env gstv @ ''%) :'', ''+ '' @ fmt2 gst),
               (''Advance Payment :'', ''- '' @ fmt2 (number_of adv))]"
  have si: "summary_items env sub discount_amount gstv gst adv = Inr es"
    by (simp add: summary_items_number [OF nums(1) nums(3)] es_def)
  obtain summ sby where summ: "summary_section tby es due = (summ, sby)"
    by (cases "summary_section tby es due")
  obtain terms ty where terms: "terms_section env tby = (terms, ty)"
    by (cases "terms_section env tby")
  obtain contact cy where contact: "contact_section env ty = (contact, cy)"
    by (cases "contact_section env ty")
  obtain bank bby where bank: "bank_section env cy = (bank, bby)"
    by (cases "bank_section env cy")
  define r where "r =
    \<lparr>ops_header = hdr, ops_company = comp, ops_party = party,
     ops_table = tab, ops_summary = summ, ops_terms = terms,
     ops_contact = contact, ops_bank = bank,
     ops_signature = signature_section env sby bby,
     ops_footer = footer_section env inv_no inv_date_str,
     out_due_date_str = due_date_str,
     out_client_address_lines = ls,
     out_y_pos_left = yl, out_y_pos_right = yr,
     out_table_start_y = tsy, out_table_data = td,
     out_sub_total_amount = sub, out_gst_total = gst,
     out_grand_total = grand, out_total_due = due\<rparr>"
  have hs': "header_section env inv_no inv_date_str due_date_str = (hdr, yl0, yr)"
    using hs by (simp add: hs_def)
  have cs': "company_section env yl0 = (comp, yl1)"
    using cs hs by (simp add: cs_def)
  have run: "create_invoice_pdf env d = Inr r"
    unfolding create_invoice_pdf_def
    using hs' cs' party loop tab tot si summ terms contact bank ls its
    by (simp add: Let_def r_def inv_no_def inv_date_str_def due_date_str_def
          discount_amount_def adv_def gstv_def entries_def yl_def tsy_def)
  show thesis
  proof (rule that [of r ls])
    show "create_invoice_pdf env d = Inr r" by (rule run)
    show "address_lines d = Inr ls" by (rule ls)
    show "\<exists>sby bby. ops_signature r = signature_section env sby bby"
      by (auto simp: r_def)
    show "ops_table r = fst (table_section env (out_table_data r) (out_table_start_y r))"
      by (simp add: r_def tab)
    show "ops_summary r =
       fst (summary_section (snd (table_section env (out_table_data r) (out_table_start_y r)))
              [(''Sub-total :'', fmt2 (out_sub_total_amount r)),
               (''Discount :'', ''- '' @ fmt2 (number_of discount_amount)),
               (''GST ('' @ py_str env gstv @ ''%) :'', ''+ '' @ fmt2 (out_gst_total r)),
               (''Advance Payment :'', ''- '' @ fmt2 (number_of adv))]
              (out_total_due r))"
      using summ by (simp add: r_def tab es_def)
  qed (simp_all add: r_def hs cs ri td_def sub_def yl_def tsy_def entries_def
        gst_def grand_def due_def)
qed

end
